theory Spec2Isabelle
  imports Main
begin

section \<open>Python strings\<close>

text \<open>
  A Python \<open>str\<close> is a sequence of Unicode code points; \<open>len\<close> counts code points.
  A code point is modelled by its number, a string by the list of its code points.
  \<open>lit\<close> reads an ASCII literal of the source as such a list.
\<close>

type_synonym codepoint = nat
type_synonym str = "codepoint list"

definition lit :: "string \<Rightarrow> str" where
  "lit s = map of_char s"

text \<open>
  Indexing raises \<open>IndexError\<close> out of range; a negative index counts from the end.
\<close>

datatype error = IndexError

definition getitem :: "'a list \<Rightarrow> int \<Rightarrow> error + 'a" where
  "getitem xs i =
     (if 0 \<le> i \<and> i < int (length xs) then Inr (xs ! nat i)
      else if i < 0 \<and> 0 \<le> int (length xs) + i then Inr (xs ! nat (int (length xs) + i))
      else Inl IndexError)"

text \<open>
  The slice \<open>p[i: j]\<close> for indices \<open>0 \<le> i \<le> j\<close>, the only ones the source builds.
  Slicing never raises: it is cut at the end of the string.
\<close>

definition slice :: "'a list \<Rightarrow> nat \<Rightarrow> nat \<Rightarrow> 'a list" where
  "slice xs i j = take (j - i) (drop i xs)"

text \<open>\<open>range(n)\<close> is empty for \<open>n \<le> 0\<close>.\<close>

definition py_range :: "int \<Rightarrow> int list" where
  "py_range n = map int [0..<nat n]"

subsection \<open>Character classes of the interpreter\<close>

text \<open>
  \<open>str.isdigit\<close>, \<open>str.islower\<close> and \<open>str.isupper\<close> read the interpreter's Unicode
  character database. Its ASCII rows are the same in every version: the lowercase
  characters are \<open>a\<close>..\<open>z\<close>, the uppercase ones \<open>A\<close>..\<open>Z\<close>, the digits \<open>0\<close>..\<open>9\<close>, and
  no ASCII character is titlecase. The rows beyond ASCII depend on the version of the
  database the interpreter ships; they are the parameter \<open>U\<close>.
\<close>

record unicode_db =
  lowercase :: "codepoint \<Rightarrow> bool"
  uppercase :: "codepoint \<Rightarrow> bool"
  titlecase :: "codepoint \<Rightarrow> bool"
  digit :: "codepoint \<Rightarrow> bool"

definition ISLOWER :: "unicode_db \<Rightarrow> codepoint \<Rightarrow> bool" where
  "ISLOWER U ch = (if ch < 128 then 97 \<le> ch \<and> ch \<le> 122 else lowercase U ch)"

definition ISUPPER :: "unicode_db \<Rightarrow> codepoint \<Rightarrow> bool" where
  "ISUPPER U ch = (if ch < 128 then 65 \<le> ch \<and> ch \<le> 90 else uppercase U ch)"

definition ISTITLE :: "unicode_db \<Rightarrow> codepoint \<Rightarrow> bool" where
  "ISTITLE U ch = (if ch < 128 then False else titlecase U ch)"

definition ISDIGIT :: "unicode_db \<Rightarrow> codepoint \<Rightarrow> bool" where
  "ISDIGIT U ch = (if ch < 128 then 48 \<le> ch \<and> ch \<le> 57 else digit U ch)"

text \<open>
  \<open>s.isdigit()\<close>: every character is a digit, and there is at least one character.
\<close>

fun isdigit_loop :: "unicode_db \<Rightarrow> str \<Rightarrow> bool" where
  "isdigit_loop U [] = True"
| "isdigit_loop U (ch # rest) = (if ISDIGIT U ch then isdigit_loop U rest else False)"

definition isdigit :: "unicode_db \<Rightarrow> str \<Rightarrow> bool" where
  "isdigit U s = (if s = [] then False else isdigit_loop U s)"

text \<open>
  \<open>s.islower()\<close>: all cased characters of \<open>s\<close> are lowercase and there is at least one
  cased character. The interpreter scans the string, gives up at the first uppercase or
  titlecase character and remembers in \<open>cased\<close> whether it met a lowercase one; a
  character with no case (a digit, a symbol) is stepped over. \<open>s.isupper()\<close> is the
  same with the two cases exchanged.
\<close>

fun islower_loop :: "unicode_db \<Rightarrow> bool \<Rightarrow> str \<Rightarrow> bool" where
  "islower_loop U cased [] = cased"
| "islower_loop U cased (ch # rest) =
     (if ISUPPER U ch \<or> ISTITLE U ch then False
      else if \<not> cased \<and> ISLOWER U ch then islower_loop U True rest
      else islower_loop U cased rest)"

definition islower :: "unicode_db \<Rightarrow> str \<Rightarrow> bool" where
  "islower U s =
     (if length s = 1 then ISLOWER U (hd s)
      else if s = [] then False
      else islower_loop U False s)"

fun isupper_loop :: "unicode_db \<Rightarrow> bool \<Rightarrow> str \<Rightarrow> bool" where
  "isupper_loop U cased [] = cased"
| "isupper_loop U cased (ch # rest) =
     (if ISLOWER U ch \<or> ISTITLE U ch then False
      else if \<not> cased \<and> ISUPPER U ch then isupper_loop U True rest
      else isupper_loop U cased rest)"

definition isupper :: "unicode_db \<Rightarrow> str \<Rightarrow> bool" where
  "isupper U s =
     (if length s = 1 then ISUPPER U (hd s)
      else if s = [] then False
      else isupper_loop U False s)"

section \<open>The password strength checker\<close>

text \<open>
  \<open>PasswordStrengthChecker(password)\<close> stores \<open>password or ""\<close>: \<open>None\<close> and the
  empty string are both falsy and give the empty string.
\<close>

record PasswordStrengthChecker =
  password :: str

definition init :: "str option \<Rightarrow> PasswordStrengthChecker" where
  "init pw =
     \<lparr>password = (case pw of None \<Rightarrow> [] | Some s \<Rightarrow> if s = [] then [] else s)\<rparr>"

subsection \<open>Length check\<close>

definition length_check :: "PasswordStrengthChecker \<Rightarrow> int" where
  "length_check self =
     (let n = int (length (password self)) in
      if 0 < n \<and> n < 8 then 0
      else if 8 \<le> n \<and> n < 12 then 1
      else if 12 \<le> n \<and> n < 16 then 2
      else if n \<ge> 16 then 3
      else 0)"

subsection \<open>Character check\<close>

definition lower :: "codepoint set" where
  "lower = set (lit ''abcdefghijklmnopqrstuvwxyz'')"

definition upper :: "codepoint set" where
  "upper = set (lit ''ABCDEFGHIJKLMNOPQRSTUVWXYZ'')"

definition digits :: "codepoint set" where
  "digits = set (lit ''0123456789'')"

text \<open>
  The special symbols of the source's raw string literal. Five of them are not ASCII:
  U+00FE, U+02BC, U+00AB, U+00E6 and U+2026, written here by their code points
  254, 700, 171, 230 and 8230. The backquote stands twice in the literal.
\<close>

definition special :: "codepoint set" where
  "special = set (lit [CHR 0x7E, CHR 0x60] @ lit ''!@#$%^&*()-_'' @ [254, 700, 171, 230, 8230]
                  @ lit ''+={}[]|/'' @ lit [CHR 0x5C] @ lit '':;'' @ lit [CHR 0x60] @ lit ''><.?'')"

text \<open>
  \<open>any(c in cls for c in chars)\<close> runs over the elements of the set \<open>chars\<close> in the
  order the interpreter enumerates them, which is not fixed between runs. The body of
  \<open>character_check\<close> after \<open>chars = set(self.password)\<close> is therefore a function of the
  enumeration \<open>chars\<close>; \<open>character_check\<close> takes each character once, in the order
  of its last occurrence in the password; the score is proved below not to depend
  on the order.
\<close>

definition any_in :: "codepoint set \<Rightarrow> codepoint list \<Rightarrow> bool" where
  "any_in cls chars = list_ex (\<lambda>c. c \<in> cls) chars"

text \<open>The dictionary \<open>{1: 0, 2: 1, 3: 2, 4: 3}\<close> and \<open>dict.get\<close> with a default.\<close>

definition score_table :: "int \<rightharpoonup> int" where
  "score_table = [1 \<mapsto> 0, 2 \<mapsto> 1, 3 \<mapsto> 2, 4 \<mapsto> 3]"

definition dict_get :: "('k \<rightharpoonup> 'v) \<Rightarrow> 'k \<Rightarrow> 'v \<Rightarrow> 'v" where
  "dict_get d k dflt = (case d k of None \<Rightarrow> dflt | Some v \<Rightarrow> v)"

definition character_score :: "codepoint list \<Rightarrow> int" where
  "character_score chars =
     (let score = 0;
          score = (if any_in lower chars then score + 1 else score);
          score = (if any_in upper chars then score + 1 else score);
          score = (if any_in digits chars then score + 1 else score);
          score = (if any_in special chars then score + 1 else score)
      in dict_get score_table score 0)"

definition character_check :: "PasswordStrengthChecker \<Rightarrow> int" where
  "character_check self = character_score (remdups (password self))"

subsection \<open>Repeat check\<close>

text \<open>
  The \<open>for\<close> loop over \<open>range(len(p) - 2)\<close>, by recursion on the indices still to visit.
  The chained comparison \<open>p[i] == p[i + 1] == p[i + 2]\<close> reads \<open>p[i + 2]\<close> only when the
  first two characters are equal. Each read may raise.
\<close>

fun repeat_loop :: "str \<Rightarrow> int list \<Rightarrow> error + int" where
  "repeat_loop p [] = Inr 1"
| "repeat_loop p (i # rest) =
     (case getitem p i of Inl e \<Rightarrow> Inl e | Inr a \<Rightarrow>
      (case getitem p (i + 1) of Inl e \<Rightarrow> Inl e | Inr b \<Rightarrow>
       if a = b then
         (case getitem p (i + 2) of Inl e \<Rightarrow> Inl e | Inr c \<Rightarrow>
          if b = c then Inr 0 else repeat_loop p rest)
       else repeat_loop p rest))"

definition repeat_check :: "PasswordStrengthChecker \<Rightarrow> error + int" where
  "repeat_check self =
     (let p = password self in
      if p = [] then Inr 2
      else repeat_loop p (py_range (int (length p) - 2)))"

subsection \<open>Sequential check\<close>

fun sequential_loop :: "unicode_db \<Rightarrow> str \<Rightarrow> int list \<Rightarrow> int" where
  "sequential_loop U p [] = 1"
| "sequential_loop U p (i # rest) =
     (let chunk = slice p (nat i) (nat (i + 3)) in
      if isdigit U chunk \<or> islower U chunk \<or> isupper U chunk then 0
      else sequential_loop U p rest)"

definition sequential_check :: "unicode_db \<Rightarrow> PasswordStrengthChecker \<Rightarrow> int" where
  "sequential_check U self =
     (let p = password self in
      if p = [] then 2
      else sequential_loop U p (py_range (int (length p) - 2)))"

section \<open>The window that shows the scores\<close>

text \<open>
  The window keeps two global lists: \<open>CONTROLS\<close>, the rows with the progress bars, and
  \<open>STATUS\<close>, the rows with the check marks. Of a row of \<open>CONTROLS\<close> the handlers touch
  only the bar \<open>controls[1].controls[0]\<close>, of a row of \<open>STATUS\<close> only the container
  \<open>controls[0]\<close> and the value of the check box inside it; a row is modelled by that
  part. The handlers change these objects in place, which is an update of the list at
  the row's index. Repainting (\<open>update()\<close>) changes none of these fields.
\<close>

datatype color = RED | YELLOW | GREEN_400 | GREEN_900 | TRANSPARENT

record bar =
  bgcolor :: color
  width :: int
  opacity :: int

record box =
  box_opacity :: int
  box_value :: "bool option"

record ui =
  CONTROLS :: "bar list"
  STATUS :: "box list"

text \<open>
  The decorator \<open>store_control\<close> appends what a builder returns to \<open>CONTROLS\<close> when
  the builder is called with \<open>control=0\<close> and to \<open>STATUS\<close> otherwise.
  \<open>check_criteria_display\<close> is always called with \<open>control=0\<close> and
  \<open>check_status_display\<close> with \<open>control=1\<close>.
\<close>

definition check_criteria_display :: "ui \<Rightarrow> ui" where
  "check_criteria_display s =
     s\<lparr>CONTROLS := CONTROLS s @ [\<lparr>bgcolor = TRANSPARENT, width = 0, opacity = 0\<rparr>]\<rparr>"

definition check_status_display :: "ui \<Rightarrow> ui" where
  "check_status_display s =
     s\<lparr>STATUS := STATUS s @ [\<lparr>box_opacity = 0, box_value = None\<rparr>]\<rparr>"

definition password_strength_display :: "ui \<Rightarrow> ui" where
  "password_strength_display s =
     (let s = check_criteria_display s; s = check_status_display s;
          s = check_criteria_display s; s = check_status_display s;
          s = check_criteria_display s; s = check_status_display s;
          s = check_criteria_display s; s = check_status_display s
      in s)"

definition criteria_satisfied :: "nat \<Rightarrow> int \<Rightarrow> ui \<Rightarrow> ui" where
  "criteria_satisfied index status s =
     (if index \<ge> length (STATUS s) then s
      else
        let b = STATUS s ! index;
            b = (if status = 3 then b\<lparr>box_opacity := 1, box_value := Some True\<rparr>
                 else b\<lparr>box_value := Some False, box_opacity := 0\<rparr>)
        in s\<lparr>STATUS := (STATUS s)[index := b]\<rparr>)"

definition password_length_status :: "int \<Rightarrow> ui \<Rightarrow> ui" where
  "password_length_status strength s =
     (if CONTROLS s = [] then s
      else
        let b = CONTROLS s ! 0;
            b = (if strength = 0 then b\<lparr>bgcolor := RED, width := 40\<rparr>
                 else if strength = 1 then b\<lparr>bgcolor := YELLOW, width := 70\<rparr>
                 else if strength = 2 then b\<lparr>bgcolor := GREEN_400, width := 100\<rparr>
                 else if strength = 3 then b\<lparr>bgcolor := GREEN_900, width := 130\<rparr>
                 else b\<lparr>width := 0\<rparr>);
            b = b\<lparr>opacity := 1\<rparr>
        in criteria_satisfied 0 strength (s\<lparr>CONTROLS := (CONTROLS s)[0 := b]\<rparr>))"

definition character_check_status :: "int \<Rightarrow> ui \<Rightarrow> ui" where
  "character_check_status strength s =
     (if length (CONTROLS s) < 2 then s
      else
        let b = CONTROLS s ! 1;
            b = (if strength = 0 then b\<lparr>bgcolor := RED, width := 40\<rparr>
                 else if strength = 1 then b\<lparr>bgcolor := YELLOW, width := 70\<rparr>
                 else if strength = 2 then b\<lparr>bgcolor := GREEN_400, width := 100\<rparr>
                 else if strength = 3 then b\<lparr>bgcolor := GREEN_900, width := 130\<rparr>
                 else b\<lparr>width := 0\<rparr>);
            b = b\<lparr>opacity := 1\<rparr>
        in criteria_satisfied 1 strength (s\<lparr>CONTROLS := (CONTROLS s)[1 := b]\<rparr>))"

definition repeat_check_status :: "int \<Rightarrow> ui \<Rightarrow> ui" where
  "repeat_check_status strength s =
     (if length (CONTROLS s) < 3 then s
      else
        let b = CONTROLS s ! 2;
            b = (if strength = 0 then b\<lparr>bgcolor := RED, width := 65\<rparr>
                 else if strength = 1 then b\<lparr>bgcolor := GREEN_900, width := 130\<rparr>
                 else b\<lparr>width := 0\<rparr>);
            b = b\<lparr>opacity := 1\<rparr>
        in criteria_satisfied 2 (if strength = 1 then 3 else strength)
             (s\<lparr>CONTROLS := (CONTROLS s)[2 := b]\<rparr>))"

definition sequential_check_status :: "int \<Rightarrow> ui \<Rightarrow> ui" where
  "sequential_check_status strength s =
     (if length (CONTROLS s) < 4 then s
      else
        let b = CONTROLS s ! 3;
            b = (if strength = 0 then b\<lparr>bgcolor := RED, width := 65\<rparr>
                 else if strength = 1 then b\<lparr>bgcolor := GREEN_900, width := 130\<rparr>
                 else b\<lparr>width := 0\<rparr>);
            b = b\<lparr>opacity := 1\<rparr>
        in criteria_satisfied 3 (if strength = 1 then 3 else strength)
             (s\<lparr>CONTROLS := (CONTROLS s)[3 := b]\<rparr>))"

text \<open>
  \<open>check_password\<close> runs on every change of the text field, with the field's text in
  \<open>e.data\<close>. An exception of a check would leave the handler at that point.
\<close>

definition check_password :: "unicode_db \<Rightarrow> str option \<Rightarrow> ui \<Rightarrow> error + ui" where
  "check_password U data s =
     (let checker = init (Some (case data of None \<Rightarrow> [] | Some d \<Rightarrow> if d = [] then [] else d));
          s = password_length_status (length_check checker) s;
          s = character_check_status (character_check checker) s
      in case repeat_check checker of
           Inl e \<Rightarrow> Inl e
         | Inr r \<Rightarrow>
             let s = repeat_check_status r s;
                 s = sequential_check_status (sequential_check U checker) s
             in Inr s)"

section \<open>The specification's vocabulary\<close>

text \<open>
  The specification speaks of the length-3 substrings of the password, taken by a
  window that slides one character at a time, and of the number of character classes
  that have a member in the password. These definitions follow its words; the theorems
  compare the code with them.
\<close>

fun windows3 :: "'a list \<Rightarrow> 'a list list" where
  "windows3 (a # b # c # rest) = [a, b, c] # windows3 (b # c # rest)"
| "windows3 _ = []"

definition all_identical :: "'a list \<Rightarrow> bool" where
  "all_identical w = list_all (\<lambda>x. x = hd w) w"

definition same_class :: "unicode_db \<Rightarrow> str \<Rightarrow> bool" where
  "same_class U w =
     (list_all (ISDIGIT U) w \<or> list_all (ISLOWER U) w \<or> list_all (ISUPPER U) w)"

definition present :: "codepoint set \<Rightarrow> str \<Rightarrow> bool" where
  "present cls p = list_ex (\<lambda>c. c \<in> cls) p"

definition classes_present :: "str \<Rightarrow> nat" where
  "classes_present p = length (filter (\<lambda>cls. present cls p) [lower, upper, digits, special])"

section \<open>Properties\<close>

subsection \<open>Windows and the two scans\<close>

lemma slice_window:
  "i + 2 < length p \<Longrightarrow> slice p i (i + 3) = [p ! i, p ! (i + 1), p ! (i + 2)]"
proof -
  assume h: "i + 2 < length p"
  have "drop i p = p ! i # drop (Suc i) p"
    using h by (simp add: Cons_nth_drop_Suc)
  moreover have "drop (Suc i) p = p ! (Suc i) # drop (Suc (Suc i)) p"
    using h by (simp add: Cons_nth_drop_Suc)
  moreover have "drop (Suc (Suc i)) p = p ! (Suc (Suc i)) # drop (Suc (Suc (Suc i))) p"
    using h by (simp add: Cons_nth_drop_Suc)
  ultimately show ?thesis by (simp add: slice_def numeral_3_eq_3)
qed

lemma windows3_length: "length (windows3 p) = length p - 2"
  by (induction p rule: windows3.induct) auto

lemma windows3_nth:
  "i + 2 < length p \<Longrightarrow> windows3 p ! i = [p ! i, p ! (i + 1), p ! (i + 2)]"
proof (induction p arbitrary: i rule: windows3.induct)
  case (1 a b c rest)
  then show ?case by (cases i) auto
qed auto

text \<open>The windows of the specification are the slices \<open>p[i: i + 3]\<close> the code takes.\<close>

lemma windows3_slices: "windows3 p = map (\<lambda>i. slice p i (i + 3)) [0..<length p - 2]"
  by (rule nth_equalityI) (auto simp: windows3_length windows3_nth slice_window)

lemma windows3_short: "length p \<le> 2 \<Longrightarrow> windows3 p = []"
  by (cases p rule: windows3.cases) auto

lemma list_ex_windows:
  "list_ex P (windows3 p) =
     list_ex (\<lambda>i. P [p ! i, p ! (i + 1), p ! (i + 2)]) [0..<length p - 2]"
  unfolding windows3_slices list_ex_iff
  by (auto simp: slice_window)

lemma all_identical3: "all_identical [a, b, c] = (a = b \<and> b = c)"
  by (auto simp: all_identical_def)

lemma getitem_in_range: "i < length p \<Longrightarrow> getitem p (int i) = Inr (p ! i)"
  by (simp add: getitem_def)

text \<open>
  The loop of \<open>repeat_check\<close> over the indices \<open>k, ..., n - 1\<close>, all of them at least
  two places before the end: no read raises, and the result is 0 exactly when some
  index starts three equal characters.
\<close>

lemma repeat_loop_scan:
  "n + 2 \<le> length p \<or> n = 0 \<Longrightarrow>
   repeat_loop p (map int [k..<n]) =
     Inr (if list_ex (\<lambda>i. p ! i = p ! (i + 1) \<and> p ! (i + 1) = p ! (i + 2)) [k..<n]
          then 0 else 1)"
proof (induction "n - k" arbitrary: k)
  case 0
  then show ?case by simp
next
  case (Suc d)
  then have kn: "k < n" and d: "d = n - Suc k" by auto
  have r: "[k..<n] = k # [Suc k..<n]" using kn by (simp add: upt_rec)
  have g: "getitem p (int k) = Inr (p ! k)" "getitem p (int k + 1) = Inr (p ! (k + 1))"
    "getitem p (int k + 2) = Inr (p ! (k + 2))"
    using kn Suc.prems getitem_in_range[of "k" p] getitem_in_range[of "k + 1" p]
      getitem_in_range[of "k + 2" p]
    by (auto simp: add.commute)
  show ?case using Suc.hyps(1)[OF d Suc.prems] g by (simp add: r)
qed

lemma repeat_check_windows:
  "repeat_check self =
     Inr (if password self = [] then 2
          else if list_ex all_identical (windows3 (password self)) then 0 else 1)"
proof -
  let ?p = "password self"
  have n: "nat (int (length ?p) - 2) = length ?p - 2" by simp
  have b: "(length ?p - 2) + 2 \<le> length ?p \<or> length ?p - 2 = 0" by arith
  show ?thesis
    unfolding repeat_check_def Let_def py_range_def n repeat_loop_scan[OF b] list_ex_windows
    by (simp add: all_identical3)
qed

lemma sequential_loop_scan:
  "sequential_loop U p (map int [k..<n]) =
     (if list_ex (\<lambda>i. isdigit U (slice p i (i + 3)) \<or> islower U (slice p i (i + 3))
                       \<or> isupper U (slice p i (i + 3))) [k..<n] then 0 else 1)"
proof (induction "n - k" arbitrary: k)
  case 0
  then show ?case by simp
next
  case (Suc d)
  then have kn: "k < n" and d: "d = n - Suc k" by auto
  have r: "[k..<n] = k # [Suc k..<n]" using kn by (simp add: upt_rec)
  have i: "nat (int k + 3) = k + 3" by simp
  show ?case using Suc.hyps(1)[OF d] by (simp add: r i Let_def)
qed

text \<open>
  What \<open>sequential_check\<close> computes: 0 exactly when \<open>isdigit\<close>, \<open>islower\<close> or
  \<open>isupper\<close> holds of some window.
\<close>

lemma sequential_check_windows:
  "sequential_check U self =
     (if password self = [] then 2
      else if list_ex (\<lambda>w. isdigit U w \<or> islower U w \<or> isupper U w) (windows3 (password self))
      then 0 else 1)"
proof -
  let ?p = "password self"
  have n: "nat (int (length ?p) - 2) = length ?p - 2" by simp
  show ?thesis
    unfolding sequential_check_def Let_def py_range_def n sequential_loop_scan windows3_slices
    by (simp add: list_ex_iff)
qed

subsection \<open>Character classes\<close>

lemma any_in_set: "set chars = set p \<Longrightarrow> any_in cls chars = present cls p"
  by (simp add: any_in_def present_def list_ex_iff)

lemma character_score_count:
  assumes "set chars = set p"
  shows "character_score chars =
           (if classes_present p = 0 then 0 else int (classes_present p) - 1)"
  unfolding character_score_def Let_def any_in_set[OF assms] classes_present_def
  by (simp add: dict_get_def score_table_def)

lemma character_check_count:
  "character_check self =
     (if classes_present (password self) = 0 then 0
      else int (classes_present (password self)) - 1)"
  unfolding character_check_def by (rule character_score_count) simp

lemma classes_present_le: "classes_present p \<le> 4"
  unfolding classes_present_def
  by (rule order_trans[OF length_filter_le]) simp

lemma length_check_cases:
  "length_check self =
     (if length (password self) \<le> 7 then 0
      else if length (password self) \<le> 11 then 1
      else if length (password self) \<le> 15 then 2
      else 3)"
  by (simp add: length_check_def Let_def)

subsection \<open>Evaluation on literals\<close>

lemmas eval_defs = init_def lit_def py_range_def slice_def getitem_def upt_rec
  isdigit_def islower_def isupper_def ISLOWER_def ISUPPER_def ISDIGIT_def ISTITLE_def

lemmas class_defs = character_check_def character_score_def any_in_def lower_def upper_def
  digits_def special_def score_table_def dict_get_def init_def lit_def

subsection \<open>Construction and the change handler\<close>

lemma init_None: "init None = init (Some [])"
  by (simp add: init_def)

lemma init_data:
  "init (Some (case data of None \<Rightarrow> [] | Some d \<Rightarrow> if d = [] then [] else d)) = init data"
  by (simp add: init_def split: option.splits)

lemma repeat_check_returns: "\<exists>v. repeat_check self = Inr v"
  by (simp add: repeat_check_windows)

lemma check_password_returns:
  "check_password U data s =
     Inr (sequential_check_status (sequential_check U (init data))
           (repeat_check_status (projr (repeat_check (init data)))
             (character_check_status (character_check (init data))
               (password_length_status (length_check (init data)) s))))"
  unfolding check_password_def init_data Let_def
  by (simp add: repeat_check_windows)

subsection \<open>The rows of the window\<close>

lemma box_updates:
  "b\<lparr>box_opacity := x, box_value := y\<rparr> = \<lparr>box_opacity = x, box_value = y\<rparr>"
  "b\<lparr>box_value := y, box_opacity := x\<rparr> = \<lparr>box_opacity = x, box_value = y\<rparr>"
  by (cases b; simp)+

lemma criteria_satisfied_STATUS:
  "STATUS (criteria_satisfied i st s) =
     (if i < length (STATUS s)
      then (STATUS s)[i := \<lparr>box_opacity = (if st = 3 then 1 else 0), box_value = Some (st = 3)\<rparr>]
      else STATUS s)"
  by (simp add: criteria_satisfied_def Let_def box_updates)

lemma criteria_satisfied_CONTROLS: "CONTROLS (criteria_satisfied i st s) = CONTROLS s"
  by (simp add: criteria_satisfied_def Let_def)

lemma password_length_status_frame:
  "length (CONTROLS (password_length_status st s)) = length (CONTROLS s)
   \<and> length (STATUS (password_length_status st s)) = length (STATUS s)"
  by (simp add: password_length_status_def Let_def criteria_satisfied_STATUS
      criteria_satisfied_CONTROLS)

lemma character_check_status_frame:
  "length (CONTROLS (character_check_status st s)) = length (CONTROLS s)
   \<and> length (STATUS (character_check_status st s)) = length (STATUS s)"
  by (simp add: character_check_status_def Let_def criteria_satisfied_STATUS
      criteria_satisfied_CONTROLS)

lemma repeat_check_status_frame:
  "length (CONTROLS (repeat_check_status st s)) = length (CONTROLS s)
   \<and> length (STATUS (repeat_check_status st s)) = length (STATUS s)"
  by (simp add: repeat_check_status_def Let_def criteria_satisfied_STATUS
      criteria_satisfied_CONTROLS)

lemma repeat_check_status_STATUS:
  "3 \<le> length (CONTROLS s) \<Longrightarrow>
   STATUS (repeat_check_status st s) = STATUS (criteria_satisfied 2 (if st = 1 then 3 else st) s)"
  by (simp add: repeat_check_status_def Let_def criteria_satisfied_STATUS)

lemma sequential_check_status_STATUS:
  "4 \<le> length (CONTROLS s) \<Longrightarrow>
   STATUS (sequential_check_status st s) = STATUS (criteria_satisfied 3 (if st = 1 then 3 else st) s)"
  by (simp add: sequential_check_status_def Let_def criteria_satisfied_STATUS)


lemma sequential_check_status_frame:
  "length (CONTROLS (sequential_check_status st s)) = length (CONTROLS s)
   \<and> length (STATUS (sequential_check_status st s)) = length (STATUS s)"
  by (simp add: sequential_check_status_def Let_def criteria_satisfied_STATUS
      criteria_satisfied_CONTROLS)

lemma repeat_box:
  "3 \<le> length (CONTROLS s) \<Longrightarrow> 2 < length (STATUS s) \<Longrightarrow>
   box_value (STATUS (repeat_check_status st s) ! 2) = Some (st = 1 \<or> st = 3)"
  by (simp add: repeat_check_status_STATUS criteria_satisfied_STATUS)

lemma sequential_box:
  "4 \<le> length (CONTROLS s) \<Longrightarrow> 3 < length (STATUS s) \<Longrightarrow>
   box_value (STATUS (sequential_check_status st s) ! 3) = Some (st = 1 \<or> st = 3)"
  by (simp add: sequential_check_status_STATUS criteria_satisfied_STATUS)

lemma sequential_keeps_repeat_box:
  "4 \<le> length (CONTROLS s) \<Longrightarrow>
   STATUS (sequential_check_status st s) ! 2 = STATUS s ! 2"
  by (simp add: sequential_check_status_STATUS criteria_satisfied_STATUS)

lemma check_password_boxes:
  assumes c: "4 \<le> length (CONTROLS s)" and t: "4 \<le> length (STATUS s)"
  shows "\<exists>s'. check_password U data s = Inr s'
     \<and> box_value (STATUS s' ! 2) = Some (repeat_check (init data) = Inr 1)
     \<and> box_value (STATUS s' ! 3) = Some (sequential_check U (init data) = 1)"
proof -
  define s2 where "s2 = character_check_status (character_check (init data))
                          (password_length_status (length_check (init data)) s)"
  define r where "r = projr (repeat_check (init data))"
  define q where "q = sequential_check U (init data)"
  define s3 where "s3 = repeat_check_status r s2"
  define s4 where "s4 = sequential_check_status q s3"
  have c2: "4 \<le> length (CONTROLS s2)" and t2: "4 \<le> length (STATUS s2)"
    using c t by (simp_all add: s2_def password_length_status_frame character_check_status_frame)
  have c3: "4 \<le> length (CONTROLS s3)" and t3: "4 \<le> length (STATUS s3)"
    using c2 t2 by (simp_all add: s3_def repeat_check_status_frame)
  have r3: "r \<noteq> 3" and rr: "repeat_check (init data) = Inr r"
    by (simp_all add: r_def repeat_check_windows)
  have q3: "q \<noteq> 3"
    by (simp add: q_def sequential_check_windows)
  have "box_value (STATUS s3 ! 2) = Some (r = 1)"
    unfolding s3_def using c2 t2 r3 by (simp add: repeat_box)
  moreover have "STATUS s4 ! 2 = STATUS s3 ! 2"
    unfolding s4_def using c3 by (rule sequential_keeps_repeat_box)
  ultimately have b2: "box_value (STATUS s4 ! 2) = Some (repeat_check (init data) = Inr 1)"
    by (simp add: rr)
  have b3: "box_value (STATUS s4 ! 3) = Some (q = 1)"
    unfolding s4_def using c3 t3 q3 by (simp add: sequential_box)
  have "check_password U data s = Inr s4"
    by (simp add: check_password_returns s4_def s3_def s2_def r_def q_def)
  with b2 b3 show ?thesis by (simp add: q_def)
qed

lemma built_ui:
  "password_strength_display \<lparr>CONTROLS = [], STATUS = []\<rparr> =
     \<lparr>CONTROLS = replicate 4 \<lparr>bgcolor = TRANSPARENT, width = 0, opacity = 0\<rparr>,
      STATUS = replicate 4 \<lparr>box_opacity = 0, box_value = None\<rparr>\<rparr>"
  by (simp add: password_strength_display_def check_criteria_display_def
      check_status_display_def numeral_eq_Suc)

section \<open>The claims\<close>

text \<open>
  C1. The claim: for a non-empty password the sequential check returns 0 exactly when
  some length-3 window consists of three digits, three lowercase letters or three
  uppercase letters, and 1 otherwise. On the password \<open>a1B2\<close> of the specification's
  own example the code returns 0, although neither of its windows \<open>a1B\<close> and \<open>1B2\<close> is
  of one class: \<open>"1B2".isupper()\<close> holds, because \<open>isupper\<close> steps over characters
  that have no case.
\<close>

theorem sequential_check_a1B2:
  "sequential_check U (init (Some (lit ''a1B2''))) = 0
   \<and> \<not> list_ex (same_class U) (windows3 (lit ''a1B2''))
   \<and> windows3 (lit ''a1B2'') = [lit ''a1B'', lit ''1B2'']
   \<and> isupper U (lit ''1B2'')"
  by (simp add: sequential_check_def same_class_def eval_defs)

text \<open>
  C2, as stated: for the password \<open>Tr0ub4dor&3\<close> the sequential check returns 1.
  It returns 0, whatever the interpreter's character database.
\<close>

theorem sequential_Tr0ub4dor_counterexample:
  "\<forall>U. sequential_check U (init (Some (lit ''Tr0ub4dor&3''))) \<noteq> 1"
  by (simp add: sequential_check_def eval_defs)

text \<open>
  C2, amended: for the password \<open>Tr0ub4dor&3\<close> the length check returns 1, the
  character check 3, the repeat check 1 and the sequential check 0: the password has
  the window \<open>dor\<close> of three lowercase letters.
\<close>

theorem scores_Tr0ub4dor:
  "length_check (init (Some (lit ''Tr0ub4dor&3''))) = 1
   \<and> character_check (init (Some (lit ''Tr0ub4dor&3''))) = 3
   \<and> repeat_check (init (Some (lit ''Tr0ub4dor&3''))) = Inr 1
   \<and> sequential_check U (init (Some (lit ''Tr0ub4dor&3''))) = 0
   \<and> lit ''dor'' \<in> set (windows3 (lit ''Tr0ub4dor&3''))
   \<and> same_class U (lit ''dor'')"
proof -
  have l: "length_check (init (Some (lit ''Tr0ub4dor&3''))) = 1"
    by (simp add: length_check_def init_def lit_def)
  have c: "character_check (init (Some (lit ''Tr0ub4dor&3''))) = 3"
    by (simp add: class_defs)
  have r: "repeat_check (init (Some (lit ''Tr0ub4dor&3''))) = Inr 1"
    by (simp add: repeat_check_def eval_defs)
  have q: "sequential_check U (init (Some (lit ''Tr0ub4dor&3''))) = 0"
    by (simp add: sequential_check_def eval_defs)
  have w: "lit ''dor'' \<in> set (windows3 (lit ''Tr0ub4dor&3''))"
    by (simp add: lit_def)
  have n: "same_class U (lit ''dor'')"
    by (simp add: same_class_def eval_defs)
  from l c r q w n show ?thesis by blast
qed

text \<open>
  C3. For a password of length \<open>n\<close> the length check returns 0 when \<open>n \<le> 7\<close>, 1 when
  \<open>8 \<le> n \<le> 11\<close>, 2 when \<open>12 \<le> n \<le> 15\<close> and 3 when \<open>n \<ge> 16\<close>; a password of length
  exactly 8, 12 or 16 scores 1, 2 or 3.
\<close>

theorem length_check_buckets:
  "length_check self =
     (if length (password self) \<le> 7 then 0
      else if length (password self) \<le> 11 then 1
      else if length (password self) \<le> 15 then 2
      else 3)
   \<and> length_check \<lparr>password = replicate 8 c\<rparr> = 1
   \<and> length_check \<lparr>password = replicate 12 c\<rparr> = 2
   \<and> length_check \<lparr>password = replicate 16 c\<rparr> = 3"
  by (simp add: length_check_cases)

text \<open>
  C4. The character check counts the classes among lowercase letters, uppercase
  letters, digits and special symbols that have a member in the password, and returns
  the count less one, and 0 when no class is present. The five example passwords score
  0, 0, 1, 2 and 3.
\<close>

theorem character_check_classes:
  "character_check self =
     (if classes_present (password self) = 0 then 0
      else int (classes_present (password self)) - 1)
   \<and> classes_present (password self) \<le> 4
   \<and> character_check (init (Some (lit ''''))) = 0
   \<and> character_check (init (Some (lit ''abc''))) = 0
   \<and> character_check (init (Some (lit ''abcABC''))) = 1
   \<and> character_check (init (Some (lit ''abcABC123''))) = 2
   \<and> character_check (init (Some (lit ''abcABC123!@#''))) = 3"
proof -
  have e0: "character_check (init (Some (lit ''''))) = 0" by (simp add: class_defs)
  have e1: "character_check (init (Some (lit ''abc''))) = 0" by (simp add: class_defs)
  have e2: "character_check (init (Some (lit ''abcABC''))) = 1" by (simp add: class_defs)
  have e3: "character_check (init (Some (lit ''abcABC123''))) = 2" by (simp add: class_defs)
  have e4: "character_check (init (Some (lit ''abcABC123!@#''))) = 3"
    by (simp add: class_defs)
  from character_check_count[of self] classes_present_le[of "password self"] e0 e1 e2 e3 e4
  show ?thesis by blast
qed

text \<open>
  C5. The repeat check returns 2 for the empty password, 0 when some length-3 window
  has three identical characters, and 1 otherwise; it returns 2, 0 and 1 for the empty
  password, \<open>aaa\<close> and \<open>abcabc\<close>. (\<open>Inr\<close>: the check returns and does not raise.)
\<close>

theorem repeat_check_triples:
  "repeat_check self =
     Inr (if password self = [] then 2
          else if list_ex all_identical (windows3 (password self)) then 0 else 1)
   \<and> repeat_check (init (Some (lit ''''))) = Inr 2
   \<and> repeat_check (init (Some (lit ''aaa''))) = Inr 0
   \<and> repeat_check (init (Some (lit ''abcabc''))) = Inr 1"
proof -
  have e0: "repeat_check (init (Some (lit ''''))) = Inr 2"
    by (simp add: repeat_check_def eval_defs)
  have e1: "repeat_check (init (Some (lit ''aaa''))) = Inr 0"
    by (simp add: repeat_check_def eval_defs)
  have e2: "repeat_check (init (Some (lit ''abcabc''))) = Inr 1"
    by (simp add: repeat_check_def eval_defs)
  from repeat_check_windows[of self] e0 e1 e2 show ?thesis by blast
qed

text \<open>
  C6. No check raises: \<open>repeat_check\<close>, the only check that reads the password by
  index, always returns, and so does the change handler that runs the four checks; the
  other three checks use only operations that are defined on every string. A missing
  password (\<open>None\<close>) gives the same checker as the empty string, hence the same four
  scores, and the change handler treats missing text as empty text.
\<close>

theorem checks_never_raise:
  "(\<exists>v. repeat_check self = Inr v)
   \<and> (\<exists>s'. check_password U data s = Inr s')
   \<and> init None = init (Some [])
   \<and> length_check (init None) = length_check (init (Some []))
   \<and> character_check (init None) = character_check (init (Some []))
   \<and> repeat_check (init None) = repeat_check (init (Some []))
   \<and> sequential_check U (init None) = sequential_check U (init (Some []))
   \<and> check_password U None s = check_password U (Some []) s"
  by (simp add: repeat_check_returns check_password_returns init_None)

text \<open>
  C7. The length check and the character check return one of 0, 1, 2, 3; the repeat
  check and the sequential check return one of 0, 1, 2.
\<close>

theorem score_ranges:
  "length_check self \<in> {0, 1, 2, 3}
   \<and> character_check self \<in> {0, 1, 2, 3}
   \<and> repeat_check self \<in> {Inr 0, Inr 1, Inr 2}
   \<and> sequential_check U self \<in> {0, 1, 2}"
proof -
  have l: "length_check self \<in> {0, 1, 2, 3}" by (simp add: length_check_cases)
  have c: "character_check self \<in> {0, 1, 2, 3}"
    using character_check_count[of self] classes_present_le[of "password self"]
    by (auto split: if_splits)
  have r: "repeat_check self \<in> {Inr 0, Inr 1, Inr 2}" by (simp add: repeat_check_windows)
  have q: "sequential_check U self \<in> {0, 1, 2}" by (simp add: sequential_check_windows)
  from l c r q show ?thesis by blast
qed

text \<open>
  C8. Where the window has its four rows, the handlers of the repeat check and of the
  sequential check hand the score 1 to \<open>criteria_satisfied\<close> as 3 and the scores 0 and
  2 as they are, and \<open>criteria_satisfied\<close> ticks and shows the check box exactly for the
  status 3. After a change of the text the two check boxes are therefore ticked
  exactly when the repeat check, respectively the sequential check, returned 1.
\<close>

theorem pass_shown_as_three:
  assumes c: "4 \<le> length (CONTROLS s)" and t: "4 \<le> length (STATUS s)"
  shows "STATUS (repeat_check_status 1 s) = STATUS (criteria_satisfied 2 3 s)
     \<and> STATUS (repeat_check_status 0 s) = STATUS (criteria_satisfied 2 0 s)
     \<and> STATUS (repeat_check_status 2 s) = STATUS (criteria_satisfied 2 2 s)
     \<and> STATUS (sequential_check_status 1 s) = STATUS (criteria_satisfied 3 3 s)
     \<and> STATUS (sequential_check_status 0 s) = STATUS (criteria_satisfied 3 0 s)
     \<and> STATUS (sequential_check_status 2 s) = STATUS (criteria_satisfied 3 2 s)
     \<and> box_value (STATUS (criteria_satisfied 2 status s) ! 2) = Some (status = 3)
     \<and> box_value (STATUS (criteria_satisfied 3 status s) ! 3) = Some (status = 3)
     \<and> box_opacity (STATUS (criteria_satisfied 2 status s) ! 2) = (if status = 3 then 1 else 0)
     \<and> box_opacity (STATUS (criteria_satisfied 3 status s) ! 3) = (if status = 3 then 1 else 0)
     \<and> (\<exists>s'. check_password U data s = Inr s'
           \<and> box_value (STATUS s' ! 2) = Some (repeat_check (init data) = Inr 1)
           \<and> box_value (STATUS s' ! 3) = Some (sequential_check U (init data) = 1))"
proof -
  have c3: "3 \<le> length (CONTROLS s)" using c by simp
  have a1: "STATUS (repeat_check_status 1 s) = STATUS (criteria_satisfied 2 3 s)"
    by (simp add: repeat_check_status_STATUS[OF c3])
  have a0: "STATUS (repeat_check_status 0 s) = STATUS (criteria_satisfied 2 0 s)"
    by (simp add: repeat_check_status_STATUS[OF c3])
  have a2: "STATUS (repeat_check_status 2 s) = STATUS (criteria_satisfied 2 2 s)"
    by (simp add: repeat_check_status_STATUS[OF c3])
  have b1: "STATUS (sequential_check_status 1 s) = STATUS (criteria_satisfied 3 3 s)"
    by (simp add: sequential_check_status_STATUS[OF c])
  have b0: "STATUS (sequential_check_status 0 s) = STATUS (criteria_satisfied 3 0 s)"
    by (simp add: sequential_check_status_STATUS[OF c])
  have b2: "STATUS (sequential_check_status 2 s) = STATUS (criteria_satisfied 3 2 s)"
    by (simp add: sequential_check_status_STATUS[OF c])
  have d2: "box_value (STATUS (criteria_satisfied 2 status s) ! 2) = Some (status = 3)"
    using t by (simp add: criteria_satisfied_STATUS)
  have d3: "box_value (STATUS (criteria_satisfied 3 status s) ! 3) = Some (status = 3)"
    using t by (simp add: criteria_satisfied_STATUS)
  have o2: "box_opacity (STATUS (criteria_satisfied 2 status s) ! 2) = (if status = 3 then 1 else 0)"
    using t by (simp add: criteria_satisfied_STATUS)
  have o3: "box_opacity (STATUS (criteria_satisfied 3 status s) ! 3) = (if status = 3 then 1 else 0)"
    using t by (simp add: criteria_satisfied_STATUS)
  note e = check_password_boxes[OF c t, of U data]
  show ?thesis
    by (intro conjI) (rule a1 a0 a2 b1 b0 b2 d2 d3 o2 o3 e)+
qed

theorem pass_shown_as_three_witness:
  "STATUS (repeat_check_status 1 (password_strength_display \<lparr>CONTROLS = [], STATUS = []\<rparr>))
     = STATUS (criteria_satisfied 2 3 (password_strength_display \<lparr>CONTROLS = [], STATUS = []\<rparr>))
   \<and> box_value (STATUS (criteria_satisfied 2 3
        (password_strength_display \<lparr>CONTROLS = [], STATUS = []\<rparr>)) ! 2) = Some True
   \<and> box_value (STATUS (criteria_satisfied 2 2
        (password_strength_display \<lparr>CONTROLS = [], STATUS = []\<rparr>)) ! 2) = Some False"
proof -
  define s where "s = password_strength_display \<lparr>CONTROLS = [], STATUS = []\<rparr>"
  have c: "4 \<le> length (CONTROLS s)" and t: "4 \<le> length (STATUS s)"
    by (simp_all add: s_def built_ui)
  have "STATUS (repeat_check_status 1 s) = STATUS (criteria_satisfied 2 3 s)"
    using pass_shown_as_three[OF c t] by blast
  moreover have "box_value (STATUS (criteria_satisfied 2 3 s) ! 2) = Some True"
    using pass_shown_as_three[OF c t, of 3] by simp
  moreover have "box_value (STATUS (criteria_satisfied 2 2 s) ! 2) = Some False"
    using pass_shown_as_three[OF c t, of 2] by simp
  ultimately show ?thesis unfolding s_def by blast
qed

text \<open>
  C9. The scores are determined by the password string: two checkers that hold the
  same string return the same four scores, and the character score does not depend on
  the order in which the interpreter enumerates the set of the password's characters,
  the one thing that differs between two runs.
\<close>

theorem checks_deterministic:
  "password a = password b \<Longrightarrow> set chars = set (password a) \<Longrightarrow>
   set chars' = set (password b) \<Longrightarrow>
     length_check a = length_check b
     \<and> character_score chars = character_score chars'
     \<and> character_check a = character_score chars
     \<and> character_check b = character_score chars'
     \<and> repeat_check a = repeat_check b
     \<and> sequential_check U a = sequential_check U b"
proof -
  assume p: "password a = password b" and c: "set chars = set (password a)"
    and c': "set chars' = set (password b)"
  have "character_check a = character_score chars"
    using character_score_count[OF c] character_check_count[of a] by simp
  moreover have "character_check b = character_score chars'"
    using character_score_count[OF c'] character_check_count[of b] by simp
  moreover have "character_score chars = character_score chars'"
    using character_score_count[OF c] character_score_count[OF c'] p by simp
  ultimately show ?thesis
    using p by (simp add: length_check_def repeat_check_def sequential_check_def)
qed

theorem checks_deterministic_witness:
  "character_score (lit ''b1a'') = character_score (lit ''a1bb'')
   \<and> character_check (init (Some (lit ''ab1a''))) = character_score (lit ''b1a'')
   \<and> length_check (init (Some (lit ''ab1a''))) = 0
   \<and> character_score (lit ''b1a'') = 1"
proof -
  have p: "password (init (Some (lit ''ab1a''))) = password (init (Some (lit ''ab1a'')))"
    by simp
  have c: "set (lit ''b1a'') = set (password (init (Some (lit ''ab1a''))))"
    by (simp add: init_def lit_def insert_commute)
  have c': "set (lit ''a1bb'') = set (password (init (Some (lit ''ab1a''))))"
    by (simp add: init_def lit_def insert_commute)
  have l: "length_check (init (Some (lit ''ab1a''))) = 0"
    by (simp add: length_check_def init_def lit_def)
  have v: "character_score (lit ''b1a'') = 1"
    by (simp add: character_score_def any_in_def lower_def upper_def
        digits_def special_def score_table_def dict_get_def lit_def)
  from checks_deterministic[OF p c c'] l v show ?thesis by simp
qed

text \<open>
  C10. A password of length 1 or 2 has no length-3 window: the repeat check and the
  sequential check both return 1. Either check returns the value 2 for the empty
  password and for no other.
\<close>

theorem short_password_passes:
  "(1 \<le> length (password self) \<and> length (password self) \<le> 2 \<longrightarrow>
      repeat_check self = Inr 1 \<and> sequential_check U self = 1)
   \<and> (repeat_check self = Inr 2) = (password self = [])
   \<and> (sequential_check U self = 2) = (password self = [])"
  by (auto simp: repeat_check_windows sequential_check_windows windows3_short)

theorem short_password_passes_witness:
  "repeat_check (init (Some (lit ''ab''))) = Inr 1
   \<and> sequential_check \<lparr>lowercase = (\<lambda>_. False), uppercase = (\<lambda>_. False),
        titlecase = (\<lambda>_. False), digit = (\<lambda>_. False)\<rparr> (init (Some (lit ''ab''))) = 1
   \<and> repeat_check (init (Some (lit ''a''))) = Inr 1"
  using short_password_passes[of "init (Some (lit ''ab''))"]
        short_password_passes[of "init (Some (lit ''a''))"]
  by (simp add: init_def lit_def)

end
